theory Spec2Isabelle
  imports Main
begin

section \<open>JavaScript values and library calls used by both scripts\<close>

text \<open>
  A JavaScript string is a \<open>string\<close>; a value that may be \<open>null\<close> or \<open>undefined\<close>
  is an \<open>option\<close>, with \<open>None\<close> for both. A call that can throw returns
  \<open>error + 'a\<close>, with \<open>Inl\<close> for the exception. \<open>TypeError\<close> is what reading a
  property of \<open>null\<close>/\<open>undefined\<close> or calling a missing method throws;
  \<open>SystemError\<close> is what \<open>fs.readFileSync\<close> throws.
\<close>

datatype error = TypeError | SystemError

text \<open>\<open>String.prototype.startsWith\<close> and \<open>endsWith\<close>.\<close>

definition startsWith :: "string \<Rightarrow> string \<Rightarrow> bool" where
  "startsWith s p = (take (length p) s = p)"

definition endsWith :: "string \<Rightarrow> string \<Rightarrow> bool" where
  "endsWith s p = (length p \<le> length s \<and> drop (length s - length p) s = p)"

text \<open>
  \<open>String.prototype.substring(a, b)\<close>: both indices are clamped to the string, and
  swapped when the first is the larger.
\<close>

definition substring :: "string \<Rightarrow> int \<Rightarrow> int \<Rightarrow> string" where
  "substring s a b =
     (let n = int (length s);
          a' = max 0 (min a n);
          b' = max 0 (min b n);
          lo = min a' b';
          hi = max a' b'
      in take (nat (hi - lo)) (drop (nat lo) s))"

text \<open>
  \<open>Array.prototype.map\<close> with a callback that can throw: the first exception ends
  the call.
\<close>

fun arrayMap :: "('a \<Rightarrow> error + 'b) \<Rightarrow> 'a list \<Rightarrow> error + 'b list" where
  "arrayMap f [] = Inr []"
| "arrayMap f (x # xs) =
     (case f x of
        Inl e \<Rightarrow> Inl e
      | Inr y \<Rightarrow> (case arrayMap f xs of Inl e \<Rightarrow> Inl e | Inr ys \<Rightarrow> Inr (y # ys)))"

text \<open>
  \<open>new Set(xs)\<close> read back in iteration order: every value once, at its first
  position.
\<close>

fun newSet :: "'a list \<Rightarrow> 'a list" where
  "newSet [] = []"
| "newSet (x # xs) = x # filter (\<lambda>y. y \<noteq> x) (newSet xs)"

section \<open>The module definition\<close>

text \<open>
  The object \<open>parseModuleDefinition\<close> builds and the mock generator reads. A
  parameter read from a closure has \<open>name\<close> and \<open>typename\<close>; one read from an
  annotated declaration has \<open>name\<close> and \<open>nametype\<close>. \<open>types\<close> of a declaration is
  \<open>None\<close> when the type lookup gave \<open>null\<close> or \<open>undefined\<close>; \<open>parameters\<close> is
  \<open>None\<close> when the object has no such key. An event has a name and nothing else.
  A missing key of the module object reads as \<open>None\<close>.
\<close>

record parameter =
  p_name :: "string option"
  typename :: "string option"
  nametype :: "string option"

record types =
  parameters :: "parameter list option"
  returnType :: "string option"

record typedDefinition =
  d_name :: "string option"
  d_types :: "types option"

record event =
  e_name :: string

datatype moduleDefinition = ModuleDefinition
  (m_name: "string option")
  (m_functions: "typedDefinition list")
  (asyncFunctions: "typedDefinition list")
  (events: "event list")
  (properties: "typedDefinition list")
  (props: "typedDefinition list")
  (onCreate: "typedDefinition list")
  (view: "moduleDefinition option")

section \<open>expo-module-mockgen.js\<close>

subsection \<open>The TypeScript nodes the generator creates\<close>

datatype syntaxKind =
  AnyKeyword | StringKeyword | BooleanKeyword | NumberKeyword | VoidKeyword
  | ArrayType | TypeReference | ExportKeyword | AsyncKeyword

datatype typeNode =
  KeywordTypeNode syntaxKind
  | ArrayTypeNode typeNode
  | TypeReferenceNode string "typeNode list"

fun kind :: "typeNode \<Rightarrow> syntaxKind" where
  "kind (KeywordTypeNode k) = k"
| "kind (ArrayTypeNode _) = ArrayType"
| "kind (TypeReferenceNode _ _) = TypeReference"

datatype expression =
  NullLiteral | StringLiteral string | FalseLiteral | NumericLiteral string
  | ArrayLiteralExpression

datatype statement = ReturnStatement expression

record parameterDeclaration =
  pd_name :: "string option"
  pd_type :: typeNode

text \<open>
  The body of a function declaration keeps what was handed to \<open>createBlock\<close>:
  \<open>None\<close> is \<open>undefined\<close>, from which the factory makes an empty statement list.
\<close>

datatype tsDeclaration =
  FunctionDeclaration
    (fn_modifiers: "syntaxKind list")
    (fn_name: string)
    (fn_parameters: "parameterDeclaration list")
    (fn_type: typeNode)
    (fn_body: "statement list option")
  | TypeAliasDeclaration
    (ta_modifiers: "syntaxKind list")
    (ta_name: string)
    (ta_type: typeNode)

definition blockStatements :: "statement list option \<Rightarrow> statement list" where
  "blockStatements b = (case b of None \<Rightarrow> [] | Some ss \<Rightarrow> ss)"

subsection \<open>Swift type names to TypeScript types\<close>

definition isSwiftArray :: "string \<Rightarrow> bool" where
  "isSwiftArray type = (startsWith type ''['' \<and> endsWith type '']'')"

definition maybeUnwrapSwiftArray :: "string \<Rightarrow> string" where
  "maybeUnwrapSwiftArray type =
     (let isArray = startsWith type ''['' \<and> endsWith type '']''
      in if \<not> isArray then type
         else substring type 1 (int (length type) - 1))"

lemma isSwiftArray_length: "isSwiftArray t \<Longrightarrow> 2 \<le> length t"
  by (cases t; cases "tl t")
     (auto simp: isSwiftArray_def startsWith_def endsWith_def)

lemma maybeUnwrapSwiftArray_shorter:
  "isSwiftArray t \<Longrightarrow> length (maybeUnwrapSwiftArray t) < length t"
  using isSwiftArray_length [of t]
  by (simp add: maybeUnwrapSwiftArray_def isSwiftArray_def substring_def Let_def)

function mapSwiftTypeToTsType :: "string option \<Rightarrow> typeNode" where
  "mapSwiftTypeToTsType None = KeywordTypeNode VoidKeyword"
| "mapSwiftTypeToTsType (Some type) =
     (if type = [] then KeywordTypeNode VoidKeyword
      else if isSwiftArray type
        then ArrayTypeNode (mapSwiftTypeToTsType (Some (maybeUnwrapSwiftArray type)))
      else if type = ''unknown'' then KeywordTypeNode AnyKeyword
      else if type = ''String'' then KeywordTypeNode StringKeyword
      else if type = ''Bool'' then KeywordTypeNode BooleanKeyword
      else if type = ''Int'' \<or> type = ''Float'' \<or> type = ''Double''
        then KeywordTypeNode NumberKeyword
      else TypeReferenceNode type [])"
  by pat_completeness auto
termination
  by (relation "measure (\<lambda>t. case t of None \<Rightarrow> 0 | Some s \<Rightarrow> length s)")
     (auto simp: maybeUnwrapSwiftArray_shorter)

declare mapSwiftTypeToTsType.simps(2) [simp del]

subsection \<open>Stub bodies and stub functions\<close>

text \<open>
  \<open>getMockReturnStatements\<close>: the switch has no default, so a kind it does not list
  leaves the function without a return value (\<open>undefined\<close>, here \<open>None\<close>).
\<close>

definition getMockReturnStatements :: "typeNode option \<Rightarrow> statement list option" where
  "getMockReturnStatements tsReturnType =
     (case tsReturnType of
        None \<Rightarrow> Some []
      | Some t \<Rightarrow>
          (let k = kind t in
           if k = AnyKeyword then Some [ReturnStatement NullLiteral]
           else if k = StringKeyword then Some [ReturnStatement (StringLiteral '''')]
           else if k = BooleanKeyword then Some [ReturnStatement FalseLiteral]
           else if k = NumberKeyword then Some [ReturnStatement (NumericLiteral ''0'')]
           else if k = VoidKeyword then Some []
           else if k = ArrayType then Some [ReturnStatement ArrayLiteralExpression]
           else None))"

definition wrapWithAsync :: "typeNode \<Rightarrow> typeNode" where
  "wrapWithAsync tsType = TypeReferenceNode ''Promise'' [tsType]"

text \<open>
  The callback of \<open>getMockedFunctions\<close>. \<open>ts.factory.createIdentifier\<close> comes
  first and throws when \<open>fnStructure.name\<close> is \<open>null\<close> or \<open>undefined\<close>; reading
  \<open>fnStructure.types.returnType\<close> throws when \<open>types\<close> is \<open>null\<close> or
  \<open>undefined\<close>; and \<open>.map\<close> on a missing \<open>parameters\<close> throws. A parameter name
  is handed to \<open>createParameterDeclaration\<close> as it is.
\<close>

definition mockedFunction :: "bool \<Rightarrow> typedDefinition \<Rightarrow> error + tsDeclaration" where
  "mockedFunction async fnStructure =
     (case d_name fnStructure of
        None \<Rightarrow> Inl TypeError
      | Some name \<Rightarrow>
          (case d_types fnStructure of
             None \<Rightarrow> Inl TypeError
           | Some ty \<Rightarrow>
               (let returnType = mapSwiftTypeToTsType (returnType ty) in
                case parameters ty of
                  None \<Rightarrow> Inl TypeError
                | Some ps \<Rightarrow>
                    Inr (FunctionDeclaration
                      (map the (filter (\<lambda>f. f \<noteq> None)
                         [Some ExportKeyword, if async then Some AsyncKeyword else None]))
                      name
                      (map (\<lambda>p. \<lparr>pd_name = p_name p,
                                   pd_type = mapSwiftTypeToTsType (typename p)\<rparr>) ps)
                      (if async then wrapWithAsync returnType else returnType)
                      (getMockReturnStatements (Some returnType))))))"

definition getMockedFunctions :: "typedDefinition list \<Rightarrow> bool \<Rightarrow> error + tsDeclaration list" where
  "getMockedFunctions fs async = arrayMap (mockedFunction async) fs"

subsection \<open>Placeholder types\<close>

text \<open>
  \<open>Object.values(module)\<close> in key order; a value that is not an array (the name, the
  view) gives nothing, an array gives the \<open>types\<close> of each entry, \<open>undefined\<close> for an
  entry without one.
\<close>

definition moduleTypes :: "moduleDefinition \<Rightarrow> types option list" where
  "moduleTypes m =
     map d_types (m_functions m) @ map d_types (asyncFunctions m)
     @ map (\<lambda>e. None) (events m)
     @ map d_types (properties m) @ map d_types (props m) @ map d_types (onCreate m)"

text \<open>
  One round of the \<open>forEach\<close>: the names pushed for one \<open>types\<close> value.
  \<open>maybeUnwrapSwiftArray\<close> calls \<open>startsWith\<close> on its argument, which throws for a
  parameter without \<open>typename\<close>; the return type is pushed only when truthy.
\<close>

definition foundTypesOf :: "types option \<Rightarrow> error + string list" where
  "foundTypesOf t =
     (case t of
        None \<Rightarrow> Inl TypeError
      | Some ty \<Rightarrow>
          (case parameters ty of
             None \<Rightarrow> Inl TypeError
           | Some ps \<Rightarrow>
               (case arrayMap (\<lambda>p. case typename p of
                                      None \<Rightarrow> Inl TypeError
                                    | Some s \<Rightarrow> Inr (maybeUnwrapSwiftArray s)) ps of
                  Inl e \<Rightarrow> Inl e
                | Inr found \<Rightarrow>
                    Inr (found @ (case returnType ty of
                                    None \<Rightarrow> []
                                  | Some r \<Rightarrow> if r = [] then [] else [maybeUnwrapSwiftArray r])))))"

definition getTypesToMock :: "moduleDefinition \<Rightarrow> error + string list" where
  "getTypesToMock m =
     (case arrayMap foundTypesOf (moduleTypes m) of
        Inl e \<Rightarrow> Inl e
      | Inr found \<Rightarrow>
          Inr (newSet (filter (\<lambda>ft. kind (mapSwiftTypeToTsType (Some ft)) = TypeReference)
                         (concat found))))"

definition getMockedTypes :: "string list \<Rightarrow> tsDeclaration list" where
  "getMockedTypes tys =
     map (\<lambda>type. TypeAliasDeclaration [ExportKeyword] type (KeywordTypeNode AnyKeyword)) tys"

definition getMockForModule :: "moduleDefinition \<Rightarrow> error + tsDeclaration list" where
  "getMockForModule m =
     (case getTypesToMock m of
        Inl e \<Rightarrow> Inl e
      | Inr tys \<Rightarrow>
          (case getMockedFunctions (m_functions m) False of
             Inl e \<Rightarrow> Inl e
           | Inr fs \<Rightarrow>
               (case getMockedFunctions (asyncFunctions m) True of
                  Inl e \<Rightarrow> Inl e
                | Inr afs \<Rightarrow> Inr (getMockedTypes tys @ fs @ afs))))"

section \<open>The structure extractor (src/unnamed/part_001)\<close>

subsection \<open>The structure tree, the source file, the external tool and the console\<close>

text \<open>
  One object of the JSON that \<open>sourcekitten structure\<close> prints: the keys the script
  reads. \<open>key.name\<close>, \<open>key.kind\<close>, \<open>key.typename\<close> and \<open>key.substructure\<close> may be
  missing (\<open>None\<close>); every object carries \<open>key.offset\<close> and \<open>key.length\<close>.
\<close>

datatype structureNode = StructureNode
  (key_name: "string option")
  (key_kind: "string option")
  (key_typename: "string option")
  (key_offset: nat)
  (key_length: nat)
  (key_substructure: "structureNode list option")

record sourceFile =
  path :: string
  content :: string

text \<open>What the console receives, in order.\<close>

datatype toolFailure = ExitNonZero | OutputUnparsable

datatype consoleLine =
  ConsoleError string toolFailure
  | ConsoleWarn string
  | ConsoleLog moduleDefinition

text \<open>
  The world outside the script. \<open>readFileSync\<close> may throw. \<open>structureTool\<close> is
  \<open>JSON.parse(execSync('sourcekitten structure --file ' + path))\<close>, failing when the
  command exits non-zero or prints something that is not JSON. \<open>cursorinfoTool\<close> is the
  \<open>try\<close> block of \<open>getTypeFromOffsetObject\<close>: the cursor-info request for a path and
  an offset, run, parsed and passed through \<open>parseXMLAnnotatedDeclarations\<close>; its
  result is the raw cursor info (no \<open>parameters\<close>, no \<open>returnType\<close>) when there is no
  annotated declaration, and otherwise parameters with \<open>name\<close> and \<open>nametype\<close> and a
  return type, each a string or missing. All three answer the same question the
  same way every time.
\<close>

record env =
  readFileSync :: "string \<Rightarrow> error + string"
  structureTool :: "string \<Rightarrow> toolFailure + structureNode"
  cursorinfoTool :: "string \<Rightarrow> nat \<Rightarrow> toolFailure + types"

text \<open>
  A computation that writes to the console and may throw: the lines written, and
  the exception or the value. Lines written before an exception stay written.
\<close>

type_synonym 'a io = "consoleLine list \<times> (error + 'a)"

fun arrayMapIO :: "('a \<Rightarrow> 'b io) \<Rightarrow> 'a list \<Rightarrow> 'b list io" where
  "arrayMapIO f [] = ([], Inr [])"
| "arrayMapIO f (x # xs) =
     (case f x of
        (l, Inl e) \<Rightarrow> (l, Inl e)
      | (l, Inr y) \<Rightarrow>
          (case arrayMapIO f xs of
             (l', Inl e) \<Rightarrow> (l @ l', Inl e)
           | (l', Inr ys) \<Rightarrow> (l @ l', Inr (y # ys))))"

text \<open>Sequencing: the second step runs when the first did not throw.\<close>

definition bindIO :: "'a io \<Rightarrow> ('a \<Rightarrow> 'b io) \<Rightarrow> 'b io" where
  "bindIO m f =
     (case m of
        (l, Inl e) \<Rightarrow> (l, Inl e)
      | (l, Inr x) \<Rightarrow> (case f x of (l', r) \<Rightarrow> (l @ l', r)))"

definition returnIO :: "'a \<Rightarrow> 'a io" where
  "returnIO x = ([], Inr x)"

definition pureIO :: "error + 'a \<Rightarrow> 'a io" where
  "pureIO r = ([], r)"

lemma bindIO_cong [fundef_cong]:
  "m = m' \<Longrightarrow> (\<And>l x. m' = (l, Inr x) \<Longrightarrow> f x = f' x) \<Longrightarrow> bindIO m f = bindIO m' f'"
  by (auto simp: bindIO_def split: prod.splits sum.splits)

text \<open>\<open>xs?.[i]\<close> on an array: the element, or \<open>undefined\<close> past the end.\<close>

definition at :: "'a list \<Rightarrow> nat \<Rightarrow> 'a option" where
  "at xs i = (if i < length xs then Some (xs ! i) else None)"

subsection \<open>Reading the tree\<close>

definition getStructureFromFile :: "env \<Rightarrow> sourceFile \<Rightarrow> consoleLine list \<times> structureNode option" where
  "getStructureFromFile E file =
     (case structureTool E (path file) of
        Inl failure \<Rightarrow>
          ([ConsoleError ''An error occurred while executing the command:'' failure], None)
      | Inr output \<Rightarrow> ([], Some output))"

lemma size_substructure:
  "key_substructure s = Some sub \<Longrightarrow> size_list size sub < size s"
  by (cases s) simp

text \<open>
  The depth-first search for the object whose \<open>key.typename\<close> is \<open>ModuleDefinition\<close>.
  The result is tested for truthiness: an empty array is truthy and is returned; a
  marker without \<open>key.substructure\<close> warns, gives \<open>undefined\<close>, and the loop of its
  parent goes on to the next child.
\<close>

function findModuleDefinitionInStructure ::
    "structureNode option \<Rightarrow> consoleLine list \<times> structureNode list option"
  and findInChildren :: "structureNode list \<Rightarrow> consoleLine list \<times> structureNode list option" where
  "findModuleDefinitionInStructure None = ([], None)"
| "findModuleDefinitionInStructure (Some s) =
     (if key_typename s = Some ''ModuleDefinition''
      then (case key_substructure s of
              None \<Rightarrow> ([ConsoleWarn ''Found ModuleDefinition but it is malformed''], None)
            | Some root \<Rightarrow> ([], Some root))
      else (case key_substructure s of
              None \<Rightarrow> ([], None)
            | Some substructure \<Rightarrow>
                if 0 < length substructure then findInChildren substructure else ([], None)))"
| "findInChildren [] = ([], None)"
| "findInChildren (child # rest) =
     (case findModuleDefinitionInStructure (Some child) of
        (l, Some result) \<Rightarrow> (l, Some result)
      | (l, None) \<Rightarrow> (case findInChildren rest of (l', r) \<Rightarrow> (l @ l', r)))"
  by pat_completeness auto
termination
  by (relation "measure (\<lambda>x. case x of
                    Inl None \<Rightarrow> 0
                  | Inl (Some s) \<Rightarrow> size s
                  | Inr cs \<Rightarrow> size_list size cs)")
     (auto simp: size_substructure)

text \<open>
  \<open>getIdentifierFromOffsetObject\<close>: reading \<open>key.offset\<close> of \<open>undefined\<close> throws.
\<close>

definition getIdentifierFromOffsetObject :: "structureNode option \<Rightarrow> sourceFile \<Rightarrow> error + string" where
  "getIdentifierFromOffsetObject offsetObject file =
     (case offsetObject of
        None \<Rightarrow> Inl TypeError
      | Some obj \<Rightarrow>
          Inr (filter (\<lambda>c. c \<noteq> CHR 0x22)
                 (substring (content file) (int (key_offset obj))
                    (int (key_offset obj) + int (key_length obj)))))"

definition getTypeFromOffsetObject ::
    "env \<Rightarrow> structureNode option \<Rightarrow> sourceFile \<Rightarrow> consoleLine list \<times> types option" where
  "getTypeFromOffsetObject E offsetObject file =
     (case offsetObject of
        None \<Rightarrow> ([], None)
      | Some obj \<Rightarrow>
          (case cursorinfoTool E (path file) (key_offset obj) of
             Inl failure \<Rightarrow>
               ([ConsoleError ''An error occurred while executing the command:'' failure], None)
           | Inr ty \<Rightarrow> ([], Some ty)))"

definition hasSubstructure :: "structureNode option \<Rightarrow> bool" where
  "hasSubstructure structureObject =
     (case structureObject of
        None \<Rightarrow> False
      | Some obj \<Rightarrow>
          (case key_substructure obj of None \<Rightarrow> False | Some sub \<Rightarrow> 0 < length sub))"

definition parseClosureTypes :: "structureNode \<Rightarrow> types option" where
  "parseClosureTypes structureObject =
     (case Option.bind (key_substructure structureObject)
             (List.find (\<lambda>s. key_kind s = Some ''source.lang.swift.expr.closure'')) of
        None \<Rightarrow> None
      | Some closure \<Rightarrow>
          Some \<lparr>parameters =
                  map_option
                    (\<lambda>sub. map (\<lambda>p. \<lparr>p_name = key_name p, typename = key_typename p,
                                      nametype = None\<rparr>)
                             (filter (\<lambda>s. key_kind s = Some ''source.lang.swift.decl.var.parameter'')
                                sub))
                    (key_substructure closure),
                returnType = Some ''unknown''\<rparr>)"

text \<open>
  The type of one definition, from its argument \<open>definitionParams[i]\<close>: the closure
  when the argument has a substructure, the cursor-info lookup otherwise.
\<close>

definition typesOfParam ::
    "env \<Rightarrow> structureNode option \<Rightarrow> sourceFile \<Rightarrow> consoleLine list \<times> types option" where
  "typesOfParam E param file =
     (case param of
        None \<Rightarrow> getTypeFromOffsetObject E param file
      | Some obj \<Rightarrow>
          if hasSubstructure param then ([], parseClosureTypes obj)
          else getTypeFromOffsetObject E param file)"

definition findNamedDefinitionsOfType ::
    "env \<Rightarrow> string \<Rightarrow> structureNode list \<Rightarrow> sourceFile \<Rightarrow> typedDefinition list io" where
  "findNamedDefinitionsOfType E type moduleDefinition file =
     arrayMapIO
       (\<lambda>d. case key_substructure d of
               None \<Rightarrow> ([], Inl TypeError)
             | Some definitionParams \<Rightarrow>
                 (case getIdentifierFromOffsetObject (at definitionParams 0) file of
                    Inl e \<Rightarrow> ([], Inl e)
                  | Inr name \<Rightarrow>
                      (case typesOfParam E (at definitionParams 1) file of
                         (l, ty) \<Rightarrow> (l, Inr \<lparr>d_name = Some name, d_types = ty\<rparr>))))
       (filter (\<lambda>md. key_name md = Some type) moduleDefinition)"

definition findUnnamedDefinitionsOfType ::
    "env \<Rightarrow> string \<Rightarrow> structureNode list \<Rightarrow> sourceFile \<Rightarrow> typedDefinition list io" where
  "findUnnamedDefinitionsOfType E type moduleDefinition file =
     arrayMapIO
       (\<lambda>d. case key_substructure d of
               None \<Rightarrow> ([], Inl TypeError)
             | Some definitionParams \<Rightarrow>
                 (case typesOfParam E (at definitionParams 0) file of
                    (l, ty) \<Rightarrow> (l, Inr \<lparr>d_name = None, d_types = ty\<rparr>)))
       (filter (\<lambda>md. key_name md = Some type) moduleDefinition)"

text \<open>Events: every argument of every \<open>Events\<close> call is read as a name.\<close>

definition findGroupedDefinitionsOfType ::
    "string \<Rightarrow> structureNode list \<Rightarrow> sourceFile \<Rightarrow> error + event list" where
  "findGroupedDefinitionsOfType type moduleDefinition file =
     (case arrayMap
             (\<lambda>d. case key_substructure d of
                     None \<Rightarrow> Inl TypeError
                   | Some definitionParams \<Rightarrow>
                       arrayMap
                         (\<lambda>d'. case getIdentifierFromOffsetObject (Some d') file of
                                  Inl e \<Rightarrow> Inl e
                                | Inr name \<Rightarrow> Inr \<lparr>e_name = name\<rparr>)
                         definitionParams)
             (filter (\<lambda>md. key_name md = Some type) moduleDefinition) of
        Inl e \<Rightarrow> Inl e
      | Inr groups \<Rightarrow> Inr (concat groups))"

text \<open>
  \<open>omitViewFromTypes\<close>: the filter keeps a parameter when its index is not \<open>0\<close> and
  its name is not \<open>view\<close>. Reading \<open>d.types.parameters\<close> throws when \<open>types\<close> is
  \<open>null\<close> or \<open>undefined\<close>; a missing \<open>parameters\<close> stays missing.
\<close>

definition omitViewFromTypes :: "typedDefinition list \<Rightarrow> error + typedDefinition list" where
  "omitViewFromTypes definitions =
     arrayMap
       (\<lambda>d. case d_types d of
               None \<Rightarrow> Inl TypeError
             | Some ty \<Rightarrow>
                 Inr (d\<lparr>d_types := Some (ty\<lparr>parameters :=
                        map_option
                          (\<lambda>ps. map snd (filter (\<lambda>(idx, t). idx \<noteq> 0 \<and> p_name t \<noteq> Some ''view'')
                                            (enumerate 0 ps)))
                          (parameters ty)\<rparr>)\<rparr>))
       definitions"

text \<open>
  The path from the \<open>View\<close> call to the children of its module definition:
  \<open>['key.substructure']?.[1]?.['key.substructure']?.[0]?.['key.substructure']?.[0]?.['key.substructure']\<close>.
\<close>

definition viewModuleDefinitionOf :: "structureNode \<Rightarrow> structureNode list option" where
  "viewModuleDefinitionOf viewDefinition =
     Option.bind (Option.bind (Option.bind (Option.bind (Option.bind (Option.bind
       (key_substructure viewDefinition)
       (\<lambda>a. at a 1)) key_substructure) (\<lambda>a. at a 0)) key_substructure) (\<lambda>a. at a 0))
       key_substructure"


lemma at_in_set: "at xs i = Some x \<Longrightarrow> x \<in> set xs"
  by (auto simp: at_def split: if_splits)

lemma size_at: "at xs i = Some x \<Longrightarrow> size x \<le> size_list size xs"
  by (drule at_in_set) (erule size_list_estimation', simp)

lemma viewModuleDefinitionOf_smaller:
  assumes "viewModuleDefinitionOf v = Some vmd"
  shows "size_list size vmd < size v"
proof -
  from assms obtain a1 x1 a2 x2 a3 x3 where
    "key_substructure v = Some a1" "at a1 1 = Some x1"
    "key_substructure x1 = Some a2" "at a2 0 = Some x2"
    "key_substructure x2 = Some a3" "at a3 0 = Some x3"
    "key_substructure x3 = Some vmd"
    by (auto simp: viewModuleDefinitionOf_def bind_eq_Some_conv)
  then have "size_list size vmd < size x3" "size x3 \<le> size_list size a3"
    "size_list size a3 < size x2" "size x2 \<le> size_list size a2"
    "size_list size a2 < size x1" "size x1 \<le> size_list size a1"
    "size_list size a1 < size v"
    by (simp_all add: size_substructure size_at)
  then show ?thesis by linarith
qed

lemma find_view_smaller:
  assumes "List.find P md = Some v" and "viewModuleDefinitionOf v = Some vmd"
  shows "size_list size vmd < size_list size md"
proof -
  from assms(1) have "v \<in> set md"
    by (auto simp: find_Some_iff)
  then have "size v \<le> size_list size md"
    by (simp add: size_list_estimation')
  with viewModuleDefinitionOf_smaller [OF assms(2)] show ?thesis by linarith
qed

subsection \<open>The module definition of a tree\<close>

text \<open>
  \<open>parseModuleDefinition\<close> fills the fields in the order of the object literal;
  the first exception ends it. \<open>findAndParseView\<close> parses the module definition
  inside the first \<open>View\<close> call and returns it without its \<open>view\<close> key.
\<close>

function parseModuleDefinition ::
    "env \<Rightarrow> structureNode list \<Rightarrow> sourceFile \<Rightarrow> moduleDefinition io"
  and findAndParseView ::
    "env \<Rightarrow> structureNode list \<Rightarrow> sourceFile \<Rightarrow> moduleDefinition option io" where
  "parseModuleDefinition E moduleDefinition file =
     bindIO (findNamedDefinitionsOfType E ''Name'' moduleDefinition file) (\<lambda>names.
     bindIO (findNamedDefinitionsOfType E ''Function'' moduleDefinition file) (\<lambda>fns.
     bindIO (findNamedDefinitionsOfType E ''AsyncFunction'' moduleDefinition file) (\<lambda>asyncFns.
     bindIO (pureIO (findGroupedDefinitionsOfType ''Events'' moduleDefinition file)) (\<lambda>evs.
     bindIO (findNamedDefinitionsOfType E ''Property'' moduleDefinition file) (\<lambda>properties.
     bindIO (findNamedDefinitionsOfType E ''Prop'' moduleDefinition file) (\<lambda>rawProps.
     bindIO (pureIO (omitViewFromTypes rawProps)) (\<lambda>props.
     bindIO (findUnnamedDefinitionsOfType E ''OnCreate'' moduleDefinition file) (\<lambda>onCreate.
     bindIO (findAndParseView E moduleDefinition file) (\<lambda>view.
     returnIO (ModuleDefinition
       (case at names 0 of None \<Rightarrow> None | Some first \<Rightarrow> d_name first)
       fns asyncFns evs properties props onCreate view))))))))))"
| "findAndParseView E moduleDefinition file =
     (case List.find (\<lambda>md. key_name md = Some ''View'') moduleDefinition of
        None \<Rightarrow> returnIO None
      | Some viewDefinition \<Rightarrow>
          (case viewModuleDefinitionOf viewDefinition of
             None \<Rightarrow> ([ConsoleWarn ''Could not parse view definition''], Inr None)
           | Some viewModuleDefinition \<Rightarrow>
               bindIO (parseModuleDefinition E viewModuleDefinition file) (\<lambda>parsed.
               returnIO (Some (ModuleDefinition
                 (m_name parsed) (m_functions parsed) (asyncFunctions parsed) (events parsed)
                 (properties parsed) (props parsed) (onCreate parsed) None)))))"
  by pat_completeness auto
termination
  by (relation "inv_image (less_than <*lex*> less_than)
        (\<lambda>x. case x of
               Inl (E, md, file) \<Rightarrow> (size_list size md, Suc 0)
             | Inr (E, md, file) \<Rightarrow> (size_list size md, 0))")
     (auto simp: find_view_smaller)

declare parseModuleDefinition.simps [simp del] findAndParseView.simps [simp del]

subsection \<open>The run over the files found\<close>

text \<open>The body of the loop of \<open>findModuleDefinitionsInFiles\<close>, for one path.\<close>

definition processFile :: "env \<Rightarrow> string \<Rightarrow> unit io" where
  "processFile E p =
     bindIO (pureIO (readFileSync E p)) (\<lambda>text.
       let file = \<lparr>path = p, content = text\<rparr> in
       case getStructureFromFile E file of
         (l1, tree) \<Rightarrow>
           (case findModuleDefinitionInStructure tree of
              (l2, definition) \<Rightarrow>
                (case (case definition of
                         None \<Rightarrow> returnIO ()
                       | Some d \<Rightarrow>
                           bindIO (parseModuleDefinition E d file) (\<lambda>parsed.
                             ([ConsoleLog parsed], Inr ()))) of
                   (l3, r) \<Rightarrow> (l1 @ l2 @ l3, r))))"

fun findModuleDefinitionsInFiles :: "env \<Rightarrow> string list \<Rightarrow> unit io" where
  "findModuleDefinitionsInFiles E [] = returnIO ()"
| "findModuleDefinitionsInFiles E (p # files) =
     bindIO (processFile E p) (\<lambda>_. findModuleDefinitionsInFiles E files)"

section \<open>Properties of the type mapping\<close>

lemma isSwiftArray_wrap: "isSwiftArray (''['' @ t @ '']'')"
  by (simp add: isSwiftArray_def startsWith_def endsWith_def)

lemma maybeUnwrapSwiftArray_wrap: "maybeUnwrapSwiftArray (''['' @ t @ '']'') = t"
  by (simp add: maybeUnwrapSwiftArray_def startsWith_def endsWith_def substring_def)

lemma isSwiftArray_iff: "isSwiftArray t \<longleftrightarrow> (\<exists>u. t = ''['' @ u @ '']'')"
proof
  assume a: "isSwiftArray t"
  then have len: "2 \<le> length t" by (rule isSwiftArray_length)
  then obtain x xs where t: "t = x # xs" and "xs \<noteq> []"
    by (cases t) (auto simp: Suc_le_eq)
  then obtain ys y where xs: "xs = ys @ [y]"
    by (cases xs rule: rev_cases) auto
  from a have "x = CHR ''[''" and "y = CHR '']''"
    by (simp_all add: t xs isSwiftArray_def startsWith_def endsWith_def)
  then have "t = ''['' @ ys @ '']''" by (simp add: t xs)
  then show "\<exists>u. t = ''['' @ u @ '']''" ..
next
  assume "\<exists>u. t = ''['' @ u @ '']''"
  then show "isSwiftArray t" using isSwiftArray_wrap by auto
qed

lemma mapSwiftTypeToTsType_wrap:
  "mapSwiftTypeToTsType (Some (''['' @ t @ '']'')) = ArrayTypeNode (mapSwiftTypeToTsType (Some t))"
  using isSwiftArray_wrap [of t] maybeUnwrapSwiftArray_wrap [of t]
  by (subst mapSwiftTypeToTsType.simps) simp

lemma mapSwiftTypeToTsType_plain:
  "t \<noteq> [] \<Longrightarrow> \<not> isSwiftArray t \<Longrightarrow>
   mapSwiftTypeToTsType (Some t) =
     (if t = ''unknown'' then KeywordTypeNode AnyKeyword
      else if t = ''String'' then KeywordTypeNode StringKeyword
      else if t = ''Bool'' then KeywordTypeNode BooleanKeyword
      else if t = ''Int'' \<or> t = ''Float'' \<or> t = ''Double'' then KeywordTypeNode NumberKeyword
      else TypeReferenceNode t [])"
  by (subst mapSwiftTypeToTsType.simps) simp

lemma mapSwiftTypeToTsType_empty: "mapSwiftTypeToTsType (Some []) = KeywordTypeNode VoidKeyword"
  by (subst mapSwiftTypeToTsType.simps) simp

lemma names_not_arrays:
  "\<not> isSwiftArray ''unknown''" "\<not> isSwiftArray ''String''" "\<not> isSwiftArray ''Bool''"
  "\<not> isSwiftArray ''Int''" "\<not> isSwiftArray ''Float''" "\<not> isSwiftArray ''Double''"
  by (simp_all add: isSwiftArray_def startsWith_def)

text \<open>
  C3. For every type-name string \<open>t\<close>, mapping \<open>'[' + t + ']'\<close> gives the array type of
  the mapping of \<open>t\<close>; \<open>maybeUnwrapSwiftArray\<close> takes exactly that one bracket pair
  off; and so \<open>n\<close> bracket pairs around \<open>t\<close> map to \<open>n\<close> nested array types around the
  mapping of \<open>t\<close>, and \<open>n\<close> unwrappings give \<open>t\<close> back, for every depth \<open>n\<close>.
\<close>

theorem C3_array_wrapping:
  "mapSwiftTypeToTsType (Some (''['' @ t @ '']'')) = ArrayTypeNode (mapSwiftTypeToTsType (Some t))
   \<and> maybeUnwrapSwiftArray (''['' @ t @ '']'') = t
   \<and> mapSwiftTypeToTsType (Some (((\<lambda>s. ''['' @ s @ '']'') ^^ n) t))
       = (ArrayTypeNode ^^ n) (mapSwiftTypeToTsType (Some t))
   \<and> (maybeUnwrapSwiftArray ^^ n) (((\<lambda>s. ''['' @ s @ '']'') ^^ n) t) = t"
proof -
  have deep: "mapSwiftTypeToTsType (Some (((\<lambda>s. ''['' @ s @ '']'') ^^ n) t))
       = (ArrayTypeNode ^^ n) (mapSwiftTypeToTsType (Some t))"
    by (induction n) (simp_all add: mapSwiftTypeToTsType_wrap del: append.simps)
  have unwrapped: "(maybeUnwrapSwiftArray ^^ n) (((\<lambda>s. ''['' @ s @ '']'') ^^ n) t) = t"
    by (induction n) (simp_all add: maybeUnwrapSwiftArray_wrap funpow_swap1 del: append.simps)
  show ?thesis
    using deep unwrapped mapSwiftTypeToTsType_wrap [of t] maybeUnwrapSwiftArray_wrap [of t]
    by blast
qed

theorem C3_array_wrapping_witness:
  "mapSwiftTypeToTsType (Some ''[[Int]]'') = ArrayTypeNode (ArrayTypeNode (KeywordTypeNode NumberKeyword))
   \<and> mapSwiftTypeToTsType (Some ''[]'') = ArrayTypeNode (KeywordTypeNode VoidKeyword)"
proof -
  have two: "((\<lambda>s. ''['' @ s @ '']'') ^^ 2) ''Int'' = ''[[Int]]''"
    by (simp add: numeral_2_eq_2)
  have int: "mapSwiftTypeToTsType (Some ''Int'') = KeywordTypeNode NumberKeyword"
    by (simp add: mapSwiftTypeToTsType_plain names_not_arrays)
  have "mapSwiftTypeToTsType (Some ''[[Int]]'')
          = (ArrayTypeNode ^^ 2) (mapSwiftTypeToTsType (Some ''Int''))"
    using C3_array_wrapping [of "''Int''" 2] two by simp
  moreover have "mapSwiftTypeToTsType (Some ''[]'') = ArrayTypeNode (mapSwiftTypeToTsType (Some ''''))"
    using C3_array_wrapping [of "''''" 0] by simp
  ultimately show ?thesis
    by (simp add: int mapSwiftTypeToTsType_empty numeral_2_eq_2)
qed

text \<open>
  C4. \<open>mapSwiftTypeToTsType\<close> is a total function from \<open>null\<close> or a string to one type
  node, defined by cases that cover every input: \<open>null\<close> and the empty string give
  \<open>void\<close>; a string in brackets gives the array type of its mapped inside; \<open>unknown\<close>
  gives \<open>any\<close>; \<open>String\<close>, \<open>Bool\<close>, \<open>Int\<close>, \<open>Float\<close> and \<open>Double\<close> give the
  string, boolean and number keywords; every other string gives a type reference
  with that name.
\<close>

theorem C4_type_mapping_total:
  "mapSwiftTypeToTsType None = KeywordTypeNode VoidKeyword
   \<and> mapSwiftTypeToTsType (Some '''') = KeywordTypeNode VoidKeyword
   \<and> mapSwiftTypeToTsType (Some (''['' @ u @ '']'')) = ArrayTypeNode (mapSwiftTypeToTsType (Some u))
   \<and> mapSwiftTypeToTsType (Some ''unknown'') = KeywordTypeNode AnyKeyword
   \<and> mapSwiftTypeToTsType (Some ''String'') = KeywordTypeNode StringKeyword
   \<and> mapSwiftTypeToTsType (Some ''Bool'') = KeywordTypeNode BooleanKeyword
   \<and> mapSwiftTypeToTsType (Some ''Int'') = KeywordTypeNode NumberKeyword
   \<and> mapSwiftTypeToTsType (Some ''Float'') = KeywordTypeNode NumberKeyword
   \<and> mapSwiftTypeToTsType (Some ''Double'') = KeywordTypeNode NumberKeyword
   \<and> (t \<noteq> '''' \<and> (\<forall>v. t \<noteq> ''['' @ v @ '']'')
        \<and> t \<notin> {''unknown'', ''String'', ''Bool'', ''Int'', ''Float'', ''Double''}
      \<longrightarrow> mapSwiftTypeToTsType (Some t) = TypeReferenceNode t [])"
proof -
  have other: "mapSwiftTypeToTsType (Some t) = TypeReferenceNode t []"
    if "t \<noteq> ''''" "\<forall>v. t \<noteq> ''['' @ v @ '']''"
       "t \<notin> {''unknown'', ''String'', ''Bool'', ''Int'', ''Float'', ''Double''}"
  proof -
    from that(2) have "\<not> isSwiftArray t" by (simp add: isSwiftArray_iff)
    with that(1,3) show ?thesis by (simp add: mapSwiftTypeToTsType_plain)
  qed
  show ?thesis
    using other mapSwiftTypeToTsType_wrap [of u]
    by (simp add: mapSwiftTypeToTsType_plain mapSwiftTypeToTsType_empty names_not_arrays)
qed

theorem C4_type_mapping_total_witness:
  "mapSwiftTypeToTsType (Some ''User'') = TypeReferenceNode ''User'' []
   \<and> mapSwiftTypeToTsType (Some ''['') = TypeReferenceNode ''['' []
   \<and> mapSwiftTypeToTsType (Some ''[Bool]'') = ArrayTypeNode (KeywordTypeNode BooleanKeyword)"
proof -
  have "mapSwiftTypeToTsType (Some ''User'') = TypeReferenceNode ''User'' []"
    using C4_type_mapping_total [of "''''" "''User''"] by simp
  moreover have "mapSwiftTypeToTsType (Some ''['') = TypeReferenceNode ''['' []"
    using C4_type_mapping_total [of "''''" "''[''"] by simp
  moreover have "mapSwiftTypeToTsType (Some ''[Bool]'') = ArrayTypeNode (KeywordTypeNode BooleanKeyword)"
    using C4_type_mapping_total [of "''Bool''" "''x''"] by simp
  ultimately show ?thesis by simp
qed

section \<open>Properties of the stub generator\<close>

lemma arrayMap_Inr_iff:
  "arrayMap f xs = Inr ys \<longleftrightarrow> list_all2 (\<lambda>x y. f x = Inr y) xs ys"
proof (induction xs arbitrary: ys)
  case Nil
  then show ?case by auto
next
  case (Cons x xs)
  show ?case
  proof (cases "f x")
    case (Inl e)
    then show ?thesis by (auto simp: list_all2_Cons1)
  next
    case (Inr y)
    then show ?thesis
      using Cons.IH by (cases "arrayMap f xs") (auto simp: list_all2_Cons1)
  qed
qed

lemma arrayMap_succeeds_iff:
  "(\<exists>ys. arrayMap f xs = Inr ys) \<longleftrightarrow> (\<forall>x\<in>set xs. \<exists>y. f x = Inr y)"
  by (induction xs) (auto split: sum.splits)

lemma mockedFunction_Inr_iff:
  "(\<exists>f. mockedFunction async d = Inr f)
     \<longleftrightarrow> (\<exists>name ty ps. d_name d = Some name \<and> d_types d = Some ty \<and> parameters ty = Some ps)"
  by (auto simp: mockedFunction_def Let_def split: option.splits)

lemma mockedFunction_nameless: "d_name d = None \<Longrightarrow> mockedFunction async d = Inl TypeError"
  by (simp add: mockedFunction_def)

definition isFunctionDeclaration :: "tsDeclaration \<Rightarrow> bool" where
  "isFunctionDeclaration d =
     (case d of FunctionDeclaration _ _ _ _ _ \<Rightarrow> True | TypeAliasDeclaration _ _ _ \<Rightarrow> False)"

lemma mockedFunction_shape:
  assumes "mockedFunction async d = Inr f"
  shows "isFunctionDeclaration f \<and> Some (fn_name f) = d_name d
         \<and> (AsyncKeyword \<in> set (fn_modifiers f) \<longleftrightarrow> async)"
  using assms
  by (cases async)
     (auto simp: mockedFunction_def isFunctionDeclaration_def Let_def split: option.splits)

lemma getMockedFunctions_shape:
  assumes "getMockedFunctions ds async = Inr fs"
  shows "map (\<lambda>f. Some (fn_name f)) fs = map d_name ds
         \<and> (\<forall>f\<in>set fs. isFunctionDeclaration f \<and> (AsyncKeyword \<in> set (fn_modifiers f) \<longleftrightarrow> async))"
proof -
  from assms have all2: "list_all2 (\<lambda>d f. mockedFunction async d = Inr f) ds fs"
    by (simp add: getMockedFunctions_def arrayMap_Inr_iff)
  then have "list_all2 (\<lambda>d f. Some (fn_name f) = d_name d) ds fs"
    by (rule list_all2_mono) (simp add: mockedFunction_shape)
  then have names: "map (\<lambda>f. Some (fn_name f)) fs = map d_name ds"
    by (induction rule: list_all2_induct) simp_all
  have "isFunctionDeclaration f \<and> (AsyncKeyword \<in> set (fn_modifiers f) \<longleftrightarrow> async)"
    if "f \<in> set fs" for f
  proof -
    from that all2 obtain d where "mockedFunction async d = Inr f"
      by (auto simp: list_all2_conv_all_nth in_set_conv_nth)
    then show ?thesis by (simp add: mockedFunction_shape)
  qed
  with names show ?thesis by blast
qed

lemma getMockedTypes_aliases:
  "\<forall>a\<in>set (getMockedTypes tys). \<not> isFunctionDeclaration a"
  by (auto simp: getMockedTypes_def isFunctionDeclaration_def)

text \<open>
  C2. A definition whose name, \<open>types\<close> and \<open>parameters\<close> are present gets a stub,
  sync or async, with that name. When its return type maps to \<open>void\<close> (it is missing or empty) the body has no
  statement; when it maps to the string, boolean or number keyword (\<open>String\<close>;
  \<open>Bool\<close>; \<open>Int\<close>, \<open>Float\<close>, \<open>Double\<close>) the body is exactly one return statement,
  of the empty string, \<open>false\<close> or \<open>0\<close>.
\<close>

theorem C2_stub_body_primitives:
  assumes "d_name d = Some name" and "d_types d = Some ty" and "parameters ty = Some ps"
  shows "\<exists>f. mockedFunction async d = Inr f \<and> fn_name f = name
     \<and> (mapSwiftTypeToTsType (returnType ty) = KeywordTypeNode VoidKeyword
          \<longrightarrow> fn_body f = Some [])
     \<and> (mapSwiftTypeToTsType (returnType ty) = KeywordTypeNode StringKeyword
          \<longrightarrow> fn_body f = Some [ReturnStatement (StringLiteral '''')])
     \<and> (mapSwiftTypeToTsType (returnType ty) = KeywordTypeNode BooleanKeyword
          \<longrightarrow> fn_body f = Some [ReturnStatement FalseLiteral])
     \<and> (mapSwiftTypeToTsType (returnType ty) = KeywordTypeNode NumberKeyword
          \<longrightarrow> fn_body f = Some [ReturnStatement (NumericLiteral ''0'')])
     \<and> (returnType ty \<in> {None, Some ''''} \<longrightarrow> blockStatements (fn_body f) = [])
     \<and> (returnType ty = Some ''String''
          \<longrightarrow> blockStatements (fn_body f) = [ReturnStatement (StringLiteral '''')])
     \<and> (returnType ty = Some ''Bool''
          \<longrightarrow> blockStatements (fn_body f) = [ReturnStatement FalseLiteral])
     \<and> (returnType ty \<in> {Some ''Int'', Some ''Float'', Some ''Double''}
          \<longrightarrow> blockStatements (fn_body f) = [ReturnStatement (NumericLiteral ''0'')])"
proof -
  from assms obtain f where f: "mockedFunction async d = Inr f"
    using mockedFunction_Inr_iff [of async d] by blast
  with assms have body:
    "fn_body f = getMockReturnStatements (Some (mapSwiftTypeToTsType (returnType ty)))"
    and name: "fn_name f = name"
    by (auto simp: mockedFunction_def Let_def)
  have prim:
    "mapSwiftTypeToTsType (Some ''String'') = KeywordTypeNode StringKeyword"
    "mapSwiftTypeToTsType (Some ''Bool'') = KeywordTypeNode BooleanKeyword"
    "mapSwiftTypeToTsType (Some ''Int'') = KeywordTypeNode NumberKeyword"
    "mapSwiftTypeToTsType (Some ''Float'') = KeywordTypeNode NumberKeyword"
    "mapSwiftTypeToTsType (Some ''Double'') = KeywordTypeNode NumberKeyword"
    by (simp_all add: mapSwiftTypeToTsType_plain names_not_arrays)
  show ?thesis
    using f body name prim
    by (auto simp: getMockReturnStatements_def blockStatements_def mapSwiftTypeToTsType_empty)
qed

text \<open>Scenario A of the specification: \<open>add(a: Int, b: Int) -> Int\<close>.\<close>

definition scenarioA :: typedDefinition where
  "scenarioA = \<lparr>d_name = Some ''add'',
     d_types = Some \<lparr>parameters = Some
         [\<lparr>p_name = Some ''a'', typename = Some ''Int'', nametype = None\<rparr>,
          \<lparr>p_name = Some ''b'', typename = Some ''Int'', nametype = None\<rparr>],
       returnType = Some ''Int''\<rparr>\<rparr>"

theorem C2_stub_body_primitives_witness:
  "\<exists>f. mockedFunction False scenarioA = Inr f \<and> fn_name f = ''add''
       \<and> blockStatements (fn_body f) = [ReturnStatement (NumericLiteral ''0'')]
       \<and> map pd_name (fn_parameters f) = [Some ''a'', Some ''b'']"
proof -
  let ?ty = "\<lparr>parameters = Some
         [\<lparr>p_name = Some ''a'', typename = Some ''Int'', nametype = None\<rparr>,
          \<lparr>p_name = Some ''b'', typename = Some ''Int'', nametype = None\<rparr>],
       returnType = Some ''Int''\<rparr>"
  have "d_name scenarioA = Some ''add''" and "d_types scenarioA = Some ?ty"
    and "parameters ?ty = Some (the (parameters ?ty))"
    by (simp_all add: scenarioA_def)
  from C2_stub_body_primitives [OF this, of False]
  obtain f where f: "mockedFunction False scenarioA = Inr f" and n: "fn_name f = ''add''"
    and b: "blockStatements (fn_body f) = [ReturnStatement (NumericLiteral ''0'')]"
    by auto
  from f have "map pd_name (fn_parameters f) = [Some ''a'', Some ''b'']"
    by (auto simp: mockedFunction_def scenarioA_def Let_def)
  with f n b show ?thesis by (intro exI [of _ f] conjI)
qed

text \<open>
  C7. For a definition whose name, \<open>types\<close> and \<open>parameters\<close> are present, the async stub
  carries the \<open>async\<close> modifier and declares \<open>Promise\<close> of the mapped return type, the
  sync stub declares the mapped return type itself, and both have the same body: the
  return statements chosen from the mapped return type before it is wrapped.
\<close>

theorem C7_async_same_body:
  assumes "d_name d = Some name" and "d_types d = Some ty" and "parameters ty = Some ps"
  shows "\<exists>fa fs. mockedFunction True d = Inr fa \<and> mockedFunction False d = Inr fs
     \<and> fn_type fs = mapSwiftTypeToTsType (returnType ty)
     \<and> fn_type fa = TypeReferenceNode ''Promise'' [mapSwiftTypeToTsType (returnType ty)]
     \<and> fn_type fa = wrapWithAsync (fn_type fs)
     \<and> fn_modifiers fa = [ExportKeyword, AsyncKeyword] \<and> fn_modifiers fs = [ExportKeyword]
     \<and> fn_body fa = fn_body fs
     \<and> fn_body fa = getMockReturnStatements (Some (mapSwiftTypeToTsType (returnType ty)))
     \<and> fn_name fa = name \<and> fn_name fs = name \<and> fn_parameters fa = fn_parameters fs"
  using assms by (simp add: mockedFunction_def Let_def wrapWithAsync_def)

text \<open>Scenario B of the specification: the async function \<open>fetchName() -> String\<close>.\<close>

definition scenarioB :: typedDefinition where
  "scenarioB = \<lparr>d_name = Some ''fetchName'',
     d_types = Some \<lparr>parameters = Some [], returnType = Some ''String''\<rparr>\<rparr>"

theorem C7_async_same_body_witness:
  "mockedFunction True scenarioB =
     Inr (FunctionDeclaration [ExportKeyword, AsyncKeyword] ''fetchName'' []
            (TypeReferenceNode ''Promise'' [KeywordTypeNode StringKeyword])
            (Some [ReturnStatement (StringLiteral '''')]))
   \<and> mockedFunction False scenarioB =
     Inr (FunctionDeclaration [ExportKeyword] ''fetchName'' []
            (KeywordTypeNode StringKeyword)
            (Some [ReturnStatement (StringLiteral '''')]))"
proof -
  let ?ty = "\<lparr>parameters = Some [], returnType = Some ''String''\<rparr>"
  have h: "d_name scenarioB = Some ''fetchName''" "d_types scenarioB = Some ?ty"
    "parameters ?ty = Some []"
    by (simp_all add: scenarioB_def)
  have s: "mapSwiftTypeToTsType (Some ''String'') = KeywordTypeNode StringKeyword"
    by (simp add: mapSwiftTypeToTsType_plain names_not_arrays)
  from C7_async_same_body [OF h]
  obtain fa fs where "mockedFunction True scenarioB = Inr fa"
    and "mockedFunction False scenarioB = Inr fs"
    and "fn_type fs = KeywordTypeNode StringKeyword"
    and "fn_type fa = TypeReferenceNode ''Promise'' [KeywordTypeNode StringKeyword]"
    and "fn_modifiers fa = [ExportKeyword, AsyncKeyword]" and "fn_modifiers fs = [ExportKeyword]"
    and "fn_body fa = fn_body fs"
    and "fn_body fa = Some [ReturnStatement (StringLiteral '''')]"
    and "fn_name fa = ''fetchName''" and "fn_name fs = ''fetchName''"
    and "fn_parameters fa = fn_parameters fs"
    by (auto simp: s getMockReturnStatements_def)
  then show ?thesis
    by (auto simp: mockedFunction_def scenarioB_def Let_def)
qed

section \<open>Properties of the module output\<close>

text \<open>
  A definition the generator can read: its \<open>types\<close> and \<open>parameters\<close> are present and
  every parameter has a \<open>typename\<close>.
\<close>

definition mockable :: "typedDefinition \<Rightarrow> bool" where
  "mockable d =
     (case d_types d of
        None \<Rightarrow> False
      | Some ty \<Rightarrow>
          (case parameters ty of
             None \<Rightarrow> False
           | Some ps \<Rightarrow> list_all (\<lambda>p. typename p \<noteq> None) ps))"

lemma foundTypesOf_succeeds_iff:
  "(\<exists>found. foundTypesOf (d_types d) = Inr found) \<longleftrightarrow> mockable d"
proof (cases "d_types d")
  case None
  then show ?thesis by (simp add: foundTypesOf_def mockable_def)
next
  case (Some ty)
  show ?thesis
  proof (cases "parameters ty")
    case None
    with Some show ?thesis by (simp add: foundTypesOf_def mockable_def)
  next
    case ps: (Some ps)
    let ?f = "\<lambda>p. case typename p of
                  None \<Rightarrow> Inl TypeError
                | Some s \<Rightarrow> (Inr (maybeUnwrapSwiftArray s) :: error + string)"
    have "(\<exists>ys. arrayMap ?f ps = Inr ys) \<longleftrightarrow> list_all (\<lambda>p. typename p \<noteq> None) ps"
      unfolding arrayMap_succeeds_iff list_all_iff
      by (auto split: option.splits)
    with Some ps show ?thesis
      by (auto simp: foundTypesOf_def mockable_def split: sum.splits)
  qed
qed

lemma getTypesToMock_succeeds_iff:
  "(\<exists>tys. getTypesToMock m = Inr tys)
     \<longleftrightarrow> events m = []
         \<and> (\<forall>d\<in>set (m_functions m @ asyncFunctions m @ properties m @ props m @ onCreate m).
               mockable d)"
proof -
  have "(\<exists>tys. getTypesToMock m = Inr tys)
          \<longleftrightarrow> (\<exists>found. arrayMap foundTypesOf (moduleTypes m) = Inr found)"
    by (auto simp: getTypesToMock_def split: sum.splits)
  also have "\<dots> \<longleftrightarrow> (\<forall>t\<in>set (moduleTypes m). \<exists>found. foundTypesOf t = Inr found)"
    by (rule arrayMap_succeeds_iff)
  also have "\<dots> \<longleftrightarrow> events m = []
         \<and> (\<forall>d\<in>set (m_functions m @ asyncFunctions m @ properties m @ props m @ onCreate m).
               \<exists>found. foundTypesOf (d_types d) = Inr found)"
    by (cases "events m") (auto simp: moduleTypes_def foundTypesOf_def)
  finally show ?thesis by (simp only: foundTypesOf_succeeds_iff)
qed

lemma getMockedFunctions_succeeds_iff:
  "(\<exists>fs. getMockedFunctions ds async = Inr fs)
     \<longleftrightarrow> (\<forall>d\<in>set ds. \<exists>name ty ps.
            d_name d = Some name \<and> d_types d = Some ty \<and> parameters ty = Some ps)"
  by (simp add: getMockedFunctions_def arrayMap_succeeds_iff mockedFunction_Inr_iff)

lemma mockable_readable:
  "mockable d \<Longrightarrow> \<exists>ty ps. d_types d = Some ty \<and> parameters ty = Some ps"
  by (auto simp: mockable_def split: option.splits)

text \<open>
  When \<open>getMockForModule\<close> returns: \<open>events\<close> is empty, every definition of the other
  five lists can be read, and every function and async function has a name.
\<close>

lemma getMockForModule_succeeds_iff:
  "(\<exists>out. getMockForModule m = Inr out)
     \<longleftrightarrow> events m = []
         \<and> (\<forall>d\<in>set (m_functions m @ asyncFunctions m @ properties m @ props m @ onCreate m).
               mockable d)
         \<and> (\<forall>d\<in>set (m_functions m @ asyncFunctions m). d_name d \<noteq> None)"
proof -
  let ?types = "events m = []
         \<and> (\<forall>d\<in>set (m_functions m @ asyncFunctions m @ properties m @ props m @ onCreate m).
               mockable d)"
  let ?named = "\<forall>d\<in>set (m_functions m @ asyncFunctions m). d_name d \<noteq> None"
  have split: "(\<exists>out. getMockForModule m = Inr out)
          \<longleftrightarrow> (\<exists>tys. getTypesToMock m = Inr tys)
              \<and> (\<exists>fs. getMockedFunctions (m_functions m) False = Inr fs)
              \<and> (\<exists>afs. getMockedFunctions (asyncFunctions m) True = Inr afs)"
    by (auto simp: getMockForModule_def split: sum.splits)
  have stubs: "(\<exists>fs. getMockedFunctions ds async = Inr fs) \<longleftrightarrow> (\<forall>d\<in>set ds. d_name d \<noteq> None)"
    if "\<forall>d\<in>set ds. mockable d" for ds async
    unfolding getMockedFunctions_succeeds_iff
    using that mockable_readable by (metis not_None_eq)
  show ?thesis
  proof
    assume "\<exists>out. getMockForModule m = Inr out"
    then have t: "\<exists>tys. getTypesToMock m = Inr tys"
      and f: "\<exists>fs. getMockedFunctions (m_functions m) False = Inr fs"
      and a: "\<exists>afs. getMockedFunctions (asyncFunctions m) True = Inr afs"
      by (simp_all add: split)
    from t have ty: ?types using getTypesToMock_succeeds_iff [of m] by blast
    then have "\<forall>d\<in>set (m_functions m). mockable d" "\<forall>d\<in>set (asyncFunctions m). mockable d"
      by auto
    with f a have "\<forall>d\<in>set (m_functions m). d_name d \<noteq> None"
      "\<forall>d\<in>set (asyncFunctions m). d_name d \<noteq> None"
      by (simp_all add: stubs)
    then have ?named by auto
    with ty show "events m = []
         \<and> (\<forall>d\<in>set (m_functions m @ asyncFunctions m @ properties m @ props m @ onCreate m).
               mockable d)
         \<and> ?named" by blast
  next
    assume r: "events m = []
         \<and> (\<forall>d\<in>set (m_functions m @ asyncFunctions m @ properties m @ props m @ onCreate m).
               mockable d)
         \<and> ?named"
    then have t: "\<exists>tys. getTypesToMock m = Inr tys"
      using getTypesToMock_succeeds_iff [of m] by blast
    from r have "\<forall>d\<in>set (m_functions m). mockable d" "\<forall>d\<in>set (asyncFunctions m). mockable d"
      "\<forall>d\<in>set (m_functions m). d_name d \<noteq> None" "\<forall>d\<in>set (asyncFunctions m). d_name d \<noteq> None"
      by auto
    then have "\<exists>fs. getMockedFunctions (m_functions m) False = Inr fs"
      "\<exists>afs. getMockedFunctions (asyncFunctions m) True = Inr afs"
      by (simp_all add: stubs)
    with t show "\<exists>out. getMockForModule m = Inr out"
      by (simp add: split)
  qed
qed

text \<open>
  What the list is when \<open>getMockForModule\<close> returns one: the type aliases of
  \<open>getTypesToMock\<close>, then the stubs of \<open>functions\<close> in their order, then the stubs of
  \<open>asyncFunctions\<close> in their order, the latter and only the latter with the \<open>async\<close>
  modifier. Its function declarations are exactly these stubs.
\<close>

lemma getMockForModule_order:
  assumes "getMockForModule m = Inr out"
  shows "\<exists>tys fs afs.
          getTypesToMock m = Inr tys
        \<and> getMockedFunctions (m_functions m) False = Inr fs
        \<and> getMockedFunctions (asyncFunctions m) True = Inr afs
        \<and> out = getMockedTypes tys @ fs @ afs
        \<and> (\<forall>a\<in>set (getMockedTypes tys). \<not> isFunctionDeclaration a)
        \<and> (\<forall>f\<in>set fs. isFunctionDeclaration f \<and> AsyncKeyword \<notin> set (fn_modifiers f))
        \<and> (\<forall>f\<in>set afs. isFunctionDeclaration f \<and> AsyncKeyword \<in> set (fn_modifiers f))
        \<and> map (\<lambda>f. Some (fn_name f)) fs = map d_name (m_functions m)
        \<and> map (\<lambda>f. Some (fn_name f)) afs = map d_name (asyncFunctions m)
        \<and> filter isFunctionDeclaration out = fs @ afs"
proof -
  from assms obtain tys fs afs where tys: "getTypesToMock m = Inr tys"
    and fs: "getMockedFunctions (m_functions m) False = Inr fs"
    and afs: "getMockedFunctions (asyncFunctions m) True = Inr afs"
    and out: "out = getMockedTypes tys @ fs @ afs"
    by (auto simp: getMockForModule_def split: sum.splits)
  note s = getMockedFunctions_shape [OF fs] getMockedFunctions_shape [OF afs]
  have al: "\<forall>a\<in>set (getMockedTypes tys). \<not> isFunctionDeclaration a"
    by (rule getMockedTypes_aliases)
  have "filter isFunctionDeclaration (getMockedTypes tys) = []"
    using al by (simp add: filter_empty_conv)
  moreover have "filter isFunctionDeclaration fs = fs"
    and "filter isFunctionDeclaration afs = afs"
    using s by (simp_all add: filter_id_conv)
  ultimately have "filter isFunctionDeclaration out = fs @ afs"
    by (simp add: out)
  with tys fs afs out al s show ?thesis
    by (intro exI [of _ tys] exI [of _ fs] exI [of _ afs]) simp
qed

text \<open>
  A module with one function, one async function, one property, one prop and one
  lifecycle hook, each naming a type of its own; and the same module with one event.
\<close>

definition fullModule :: moduleDefinition where
  "fullModule = ModuleDefinition (Some ''Full'')
     [scenarioA]
     [scenarioB]
     []
     [\<lparr>d_name = Some ''theme'',
        d_types = Some \<lparr>parameters = Some [], returnType = Some ''Theme''\<rparr>\<rparr>]
     [\<lparr>d_name = Some ''color'',
        d_types = Some \<lparr>parameters = Some
            [\<lparr>p_name = Some ''value'', typename = Some ''[Color]'', nametype = None\<rparr>],
          returnType = Some ''unknown''\<rparr>\<rparr>]
     [\<lparr>d_name = None,
        d_types = Some \<lparr>parameters = Some [], returnType = Some ''unknown''\<rparr>\<rparr>]
     None"

definition fullModuleWithEvent :: moduleDefinition where
  "fullModuleWithEvent =
     ModuleDefinition (m_name fullModule) (m_functions fullModule) (asyncFunctions fullModule)
       [\<lparr>e_name = ''onChange''\<rparr>]
       (properties fullModule) (props fullModule) (onCreate fullModule) (view fullModule)"

text \<open>
  C8, at a module with a function, an async function, a property, a prop, a lifecycle
  hook and one event. \<open>getMockForModule\<close> calls \<open>getTypesToMock\<close> first, which throws
  on the event entry, so the module gets no output at all: no aliases, no stubs.
  Without the event the same module gets its two aliases, then the stub of the
  function, then the stub of the async function, and nothing for the property, the
  prop and the hook.
\<close>

theorem C8_event_module_has_no_output:
  "getMockForModule fullModuleWithEvent = Inl TypeError
   \<and> getMockForModule fullModule = Inr
     [TypeAliasDeclaration [ExportKeyword] ''Theme'' (KeywordTypeNode AnyKeyword),
      TypeAliasDeclaration [ExportKeyword] ''Color'' (KeywordTypeNode AnyKeyword),
      FunctionDeclaration [ExportKeyword] ''add''
        [\<lparr>pd_name = Some ''a'', pd_type = KeywordTypeNode NumberKeyword\<rparr>,
         \<lparr>pd_name = Some ''b'', pd_type = KeywordTypeNode NumberKeyword\<rparr>]
        (KeywordTypeNode NumberKeyword)
        (Some [ReturnStatement (NumericLiteral ''0'')]),
      FunctionDeclaration [ExportKeyword, AsyncKeyword] ''fetchName'' []
        (TypeReferenceNode ''Promise'' [KeywordTypeNode StringKeyword])
        (Some [ReturnStatement (StringLiteral '''')])]"
  by code_simp

section \<open>Where the generator leaves its intent\<close>

lemma set_newSet: "set (newSet xs) = set xs"
  by (induction xs) auto

lemma distinct_newSet: "distinct (newSet xs)"
  by (induction xs) (auto simp: set_newSet)

lemma getTypesToMock_distinct: "getTypesToMock m = Inr tys \<Longrightarrow> distinct tys"
  by (auto simp: getTypesToMock_def distinct_newSet split: sum.splits)

lemma mapSwiftTypeToTsType_array:
  "isSwiftArray t \<Longrightarrow>
   mapSwiftTypeToTsType (Some t) = ArrayTypeNode (mapSwiftTypeToTsType (Some (maybeUnwrapSwiftArray t)))"
  using isSwiftArray_length [of t]
  by (subst mapSwiftTypeToTsType.simps) auto

lemma getTypesToMock_references:
  assumes "getTypesToMock m = Inr tys" and "ty \<in> set tys"
  shows "mapSwiftTypeToTsType (Some ty) = TypeReferenceNode ty []"
proof -
  from assms have k: "kind (mapSwiftTypeToTsType (Some ty)) = TypeReference"
    by (auto simp: getTypesToMock_def set_newSet split: sum.splits)
  have "ty \<noteq> []"
    using k by (auto simp: mapSwiftTypeToTsType_empty)
  moreover have "\<not> isSwiftArray ty"
    using k by (auto simp: mapSwiftTypeToTsType_array)
  ultimately show ?thesis
    using k by (simp add: mapSwiftTypeToTsType_plain split: if_splits)
qed

lemma getMockReturnStatements_reference:
  "kind t = TypeReference \<Longrightarrow> getMockReturnStatements (Some t) = None"
  by (simp add: getMockReturnStatements_def)

text \<open>
  C1, at the return type \<open>User\<close>. The mapped type is a type reference, the switch
  of \<open>getMockReturnStatements\<close> has no case for that kind and falls through, and the
  stub of \<open>fetchUser() -> User\<close> has a body without any statement: no
  \<open>return null\<close>. The return types \<open>unknown\<close> and \<open>[User]\<close> next to it get
  \<open>return null\<close> and \<open>return []\<close>.
\<close>

theorem C1_reference_stub_has_no_return:
  "mockedFunction False
     \<lparr>d_name = Some ''fetchUser'',
      d_types = Some \<lparr>parameters = Some [], returnType = Some ''User''\<rparr>\<rparr>
   = Inr (FunctionDeclaration [ExportKeyword] ''fetchUser'' []
            (TypeReferenceNode ''User'' []) None)
   \<and> blockStatements (getMockReturnStatements (Some (mapSwiftTypeToTsType (Some ''User'')))) = []
   \<and> getMockReturnStatements (Some (mapSwiftTypeToTsType (Some ''unknown'')))
       = Some [ReturnStatement NullLiteral]
   \<and> getMockReturnStatements (Some (mapSwiftTypeToTsType (Some ''[User]'')))
       = Some [ReturnStatement ArrayLiteralExpression]"
  by code_simp

text \<open>
  C6, at the return type \<open>[[User]]\<close>. \<open>getTypesToMock\<close> takes one bracket pair off,
  finds \<open>[User]\<close>, which maps to an array type and not to a type reference, and
  drops it: no alias for \<open>User\<close> is made, although the stub of the same function
  declares the return type \<open>User[][]\<close>. One bracket pair (\<open>[User]\<close>) is handled.
\<close>

theorem C6_nested_array_name_not_collected:
  "getTypesToMock (ModuleDefinition (Some ''M'')
       [\<lparr>d_name = Some ''grid'',
         d_types = Some \<lparr>parameters = Some [], returnType = Some ''[[User]]''\<rparr>\<rparr>]
       [] [] [] [] [] None)
     = Inr []
   \<and> getMockForModule (ModuleDefinition (Some ''M'')
       [\<lparr>d_name = Some ''grid'',
         d_types = Some \<lparr>parameters = Some [], returnType = Some ''[[User]]''\<rparr>\<rparr>]
       [] [] [] [] [] None)
     = Inr [FunctionDeclaration [ExportKeyword] ''grid'' []
              (ArrayTypeNode (ArrayTypeNode (TypeReferenceNode ''User'' [])))
              (Some [ReturnStatement ArrayLiteralExpression])]
   \<and> getTypesToMock (ModuleDefinition (Some ''M'')
       [\<lparr>d_name = Some ''row'',
         d_types = Some \<lparr>parameters = Some [], returnType = Some ''[User]''\<rparr>\<rparr>]
       [] [] [] [] [] None)
     = Inr [''User'']"
  by code_simp

section \<open>Properties of the extractor\<close>

lemma bindIO_Inr_iff:
  "bindIO m f = (l, Inr y) \<longleftrightarrow> (\<exists>l1 x l2. m = (l1, Inr x) \<and> f x = (l2, Inr y) \<and> l = l1 @ l2)"
  by (auto simp: bindIO_def split: prod.splits sum.splits)

lemma bindIO_returnIO: "bindIO (returnIO x) f = f x"
  by (simp add: bindIO_def returnIO_def split: prod.splits)

lemma bindIO_assoc: "bindIO (bindIO m f) g = bindIO m (\<lambda>x. bindIO (f x) g)"
  by (auto simp: bindIO_def split: prod.splits sum.splits)

lemma omit_filter_index:
  "0 < n \<Longrightarrow>
   map snd (filter (\<lambda>(idx, t). 0 < idx \<and> P t) (enumerate n ps)) = filter P ps"
  by (induction ps arbitrary: n) auto

lemma omit_filter:
  "map snd (filter (\<lambda>(idx, t). idx \<noteq> 0 \<and> P t) (enumerate 0 ps)) = filter P (drop 1 ps)"
  by (cases ps) (simp_all add: omit_filter_index)

text \<open>What \<open>omitViewFromTypes\<close> makes of one definition.\<close>

definition omitted :: "typedDefinition \<Rightarrow> typedDefinition \<Rightarrow> bool" where
  "omitted r p =
     (d_name p = d_name r
      \<and> (case d_types r of
            None \<Rightarrow> False
          | Some tr \<Rightarrow>
              (case d_types p of
                 None \<Rightarrow> False
               | Some tp \<Rightarrow>
                   returnType tp = returnType tr
                   \<and> parameters tp =
                       map_option (\<lambda>qs. filter (\<lambda>q. p_name q \<noteq> Some ''view'') (drop 1 qs))
                         (parameters tr))))"

lemma omitViewFromTypes_omitted:
  assumes "omitViewFromTypes raw = Inr ps"
  shows "list_all2 omitted raw ps"
proof -
  from assms have "list_all2 (\<lambda>d y.
      (case d_types d of
         None \<Rightarrow> Inl TypeError
       | Some ty \<Rightarrow>
           Inr (d\<lparr>d_types := Some (ty\<lparr>parameters :=
                  map_option
                    (\<lambda>ps. map snd (filter (\<lambda>(idx, t). idx \<noteq> 0 \<and> p_name t \<noteq> Some ''view'')
                                      (enumerate 0 ps)))
                    (parameters ty)\<rparr>)\<rparr>)) = Inr y) raw ps"
    by (simp add: omitViewFromTypes_def arrayMap_Inr_iff)
  then show ?thesis
    unfolding omit_filter
    by (rule list_all2_mono) (auto simp: omitted_def split: option.splits)
qed

lemma parseModuleDefinition_props:
  assumes "parseModuleDefinition E md file = (l, Inr parsed)"
  shows "\<exists>l' raw. findNamedDefinitionsOfType E ''Prop'' md file = (l', Inr raw)
                  \<and> omitViewFromTypes raw = Inr (props parsed)"
  using assms
  by (subst (asm) parseModuleDefinition.simps)
     (auto simp: bindIO_Inr_iff returnIO_def pureIO_def)

lemma findAndParseView_Some:
  assumes "findAndParseView E md file = (l, Inr (Some def))"
  shows "\<exists>v vmd parsed.
           List.find (\<lambda>s. key_name s = Some ''View'') md = Some v
         \<and> viewModuleDefinitionOf v = Some vmd
         \<and> parseModuleDefinition E vmd file = (l, Inr parsed)
         \<and> def = ModuleDefinition (m_name parsed) (m_functions parsed) (asyncFunctions parsed)
                   (events parsed) (properties parsed) (props parsed) (onCreate parsed) None"
  using assms
  by (subst (asm) findAndParseView.simps)
     (auto simp: bindIO_Inr_iff returnIO_def split: option.splits)

text \<open>
  C5. When \<open>findAndParseView\<close> returns a definition, its \<open>view\<close> is absent, and its
  props are the props found in the view's module definition after
  \<open>omitViewFromTypes\<close>: for each of them, in order, the parameter list (when there is
  one) is the original list without its first entry and without any entry named
  \<open>view\<close>. So no parameter of a returned prop is named \<open>view\<close>.
\<close>

theorem C5_view_flattened_props_stripped:
  assumes "findAndParseView E md file = (l, Inr (Some def))"
  shows "view def = None
     \<and> (\<forall>p\<in>set (props def). \<forall>ty ps. d_types p = Some ty \<and> parameters ty = Some ps
            \<longrightarrow> (\<forall>q\<in>set ps. p_name q \<noteq> Some ''view''))
     \<and> (\<exists>v vmd l' raw.
            List.find (\<lambda>s. key_name s = Some ''View'') md = Some v
          \<and> viewModuleDefinitionOf v = Some vmd
          \<and> findNamedDefinitionsOfType E ''Prop'' vmd file = (l', Inr raw)
          \<and> list_all2 omitted raw (props def))"
proof -
  from findAndParseView_Some [OF assms]
  obtain v vmd parsed where v: "List.find (\<lambda>s. key_name s = Some ''View'') md = Some v"
    and vmd: "viewModuleDefinitionOf v = Some vmd"
    and parsed: "parseModuleDefinition E vmd file = (l, Inr parsed)"
    and def: "def = ModuleDefinition (m_name parsed) (m_functions parsed) (asyncFunctions parsed)
                   (events parsed) (properties parsed) (props parsed) (onCreate parsed) None"
    by blast
  from parseModuleDefinition_props [OF parsed]
  obtain l' raw where raw: "findNamedDefinitionsOfType E ''Prop'' vmd file = (l', Inr raw)"
    and "omitViewFromTypes raw = Inr (props parsed)"
    by blast
  then have all2: "list_all2 omitted raw (props def)"
    by (simp add: def omitViewFromTypes_omitted)
  have "p_name q \<noteq> Some ''view''"
    if "p \<in> set (props def)" "d_types p = Some ty" "parameters ty = Some ps" "q \<in> set ps"
    for p ty ps q
  proof -
    from that(1) all2 obtain r where "omitted r p"
      by (auto simp: list_all2_conv_all_nth in_set_conv_nth)
    with that(2) obtain tr :: types where
      "parameters ty = map_option (\<lambda>qs. filter (\<lambda>q. p_name q \<noteq> Some ''view'') (drop 1 qs))
                         (parameters tr)"
      by (auto simp: omitted_def split: option.splits)
    with that(3) obtain qs where
      "ps = filter (\<lambda>q. p_name q \<noteq> Some ''view'') (drop 1 qs)"
      by (cases "parameters tr") auto
    with that(4) show ?thesis by simp
  qed
  then have "\<forall>p\<in>set (props def). \<forall>ty ps. d_types p = Some ty \<and> parameters ty = Some ps
            \<longrightarrow> (\<forall>q\<in>set ps. p_name q \<noteq> Some ''view'')"
    by blast
  moreover have "view def = None" by (simp add: def)
  ultimately show ?thesis using v vmd raw all2 by blast
qed

subsection \<open>A small Swift module as the tool describes it\<close>

text \<open>
  The tree of a file \<open>Demo.swift\<close> whose module definition is
  \<open>Name("Demo")\<close>, \<open>Events("onChange")\<close> and a \<open>View\<close> with
  \<open>Prop("onPress") { (view: ViewRef, handler: Handler) in }\<close>. Only the three
  string literals of the file are kept as its text.
\<close>

definition demoText :: string where
  "demoText = [CHR 0x22] @ ''Demo'' @ [CHR 0x22, CHR 0x22] @ ''onChange''
              @ [CHR 0x22, CHR 0x22] @ ''onPress'' @ [CHR 0x22]"

definition demoFile :: sourceFile where
  "demoFile = \<lparr>path = ''Demo.swift'', content = demoText\<rparr>"

definition argument :: "nat \<Rightarrow> nat \<Rightarrow> structureNode list option \<Rightarrow> structureNode" where
  "argument off len sub =
     StructureNode None (Some ''source.lang.swift.expr.argument'') None off len sub"

definition call :: "string \<Rightarrow> structureNode list \<Rightarrow> structureNode" where
  "call name args =
     StructureNode (Some name) (Some ''source.lang.swift.expr.call'') None 0 0 (Some args)"

definition closure :: "structureNode list \<Rightarrow> structureNode" where
  "closure sub = StructureNode None (Some ''source.lang.swift.expr.closure'') None 0 0 (Some sub)"

definition brace :: "structureNode list \<Rightarrow> structureNode" where
  "brace sub = StructureNode None (Some ''source.lang.swift.stmt.brace'') None 0 0 (Some sub)"

definition closureParameter :: "string \<Rightarrow> string \<Rightarrow> structureNode" where
  "closureParameter name ty =
     StructureNode (Some name) (Some ''source.lang.swift.decl.var.parameter'') (Some ty) 0 0 None"

definition demoViewChildren :: "structureNode list" where
  "demoViewChildren =
     [call ''Prop''
        [argument 16 9 None,
         argument 0 0 (Some [closure [closureParameter ''view'' ''ViewRef'',
                                      closureParameter ''handler'' ''Handler'']])]]"

definition demoChildren :: "structureNode list" where
  "demoChildren =
     [call ''Name'' [argument 0 6 None],
      call ''Events'' [argument 6 10 None],
      call ''View''
        [argument 0 0 None,
         argument 0 0 (Some [closure [brace demoViewChildren]])]]"

definition demoTree :: structureNode where
  "demoTree =
     StructureNode None None None 0 31
       (Some [StructureNode (Some ''DemoModule'') (Some ''source.lang.swift.decl.class'') None 0 31
          (Some [StructureNode (Some ''definition()'')
                   (Some ''source.lang.swift.decl.function.method.instance'')
                   (Some ''ModuleDefinition'') 0 31 (Some demoChildren)])])"

text \<open>
  A world with two files: the tool fails on \<open>Broken.swift\<close> and describes
  \<open>Demo.swift\<close>; no cursor-info request succeeds.
\<close>

definition demoEnv :: env where
  "demoEnv = \<lparr>readFileSync = (\<lambda>p. Inr (if p = ''Demo.swift'' then demoText else '''')),
               structureTool = (\<lambda>p. if p = ''Demo.swift'' then Inr demoTree else Inl ExitNonZero),
               cursorinfoTool = (\<lambda>p off. Inl ExitNonZero)\<rparr>"

definition demoProp :: typedDefinition where
  "demoProp = \<lparr>d_name = Some ''onPress'',
     d_types = Some \<lparr>parameters = Some
         [\<lparr>p_name = Some ''handler'', typename = Some ''Handler'', nametype = None\<rparr>],
       returnType = Some ''unknown''\<rparr>\<rparr>"

definition demoView :: moduleDefinition where
  "demoView = ModuleDefinition None [] [] [] [] [demoProp] [] None"

definition demoModule :: moduleDefinition where
  "demoModule = ModuleDefinition (Some ''Demo'') [] [] [\<lparr>e_name = ''onChange''\<rparr>] [] [] []
                  (Some demoView)"

lemma demo_view: "findAndParseView demoEnv demoChildren demoFile = ([], Inr (Some demoView))"
  by code_simp

lemma demo_parse: "parseModuleDefinition demoEnv demoChildren demoFile = ([], Inr demoModule)"
  by code_simp

text \<open>
  Scenario C of the specification: under the view, the prop
  \<open>onPress(view: ViewRef, handler: Handler)\<close> comes out as \<open>onPress(handler: Handler)\<close>.
\<close>

theorem C5_view_flattened_props_stripped_witness:
  "findAndParseView demoEnv demoChildren demoFile = ([], Inr (Some demoView))
   \<and> view demoView = None
   \<and> props demoView = [demoProp]
   \<and> (\<exists>ty. d_types demoProp = Some ty
          \<and> map_option (map p_name) (parameters ty) = Some [Some ''handler''])
   \<and> (\<exists>raw. findNamedDefinitionsOfType demoEnv ''Prop'' demoViewChildren demoFile = ([], Inr raw)
          \<and> list_all2 omitted raw [demoProp])"
proof -
  note c5 = C5_view_flattened_props_stripped [OF demo_view]
  have path: "viewModuleDefinitionOf (call ''View''
        [argument 0 0 None, argument 0 0 (Some [closure [brace demoViewChildren]])])
      = Some demoViewChildren"
    by (simp add: viewModuleDefinitionOf_def call_def argument_def closure_def brace_def at_def)
  have found: "List.find (\<lambda>s. key_name s = Some ''View'') demoChildren
      = Some (call ''View''
        [argument 0 0 None, argument 0 0 (Some [closure [brace demoViewChildren]])])"
    by (simp add: demoChildren_def call_def)
  from c5 found path obtain l' raw where
    raw: "findNamedDefinitionsOfType demoEnv ''Prop'' demoViewChildren demoFile = (l', Inr raw)"
    and all2: "list_all2 omitted raw (props demoView)"
    by auto
  have "findNamedDefinitionsOfType demoEnv ''Prop'' demoViewChildren demoFile
      = ([], Inr [\<lparr>d_name = Some ''onPress'',
           d_types = Some \<lparr>parameters = Some
               [\<lparr>p_name = Some ''view'', typename = Some ''ViewRef'', nametype = None\<rparr>,
                \<lparr>p_name = Some ''handler'', typename = Some ''Handler'', nametype = None\<rparr>],
             returnType = Some ''unknown''\<rparr>\<rparr>])"
    by code_simp
  with raw have "l' = []" by simp
  with raw all2 c5 demo_view show ?thesis
    by (auto simp: demoView_def demoProp_def)
qed

section \<open>Properties of the run\<close>

lemma findModuleDefinitionsInFiles_append:
  "findModuleDefinitionsInFiles E (xs @ ys)
     = bindIO (findModuleDefinitionsInFiles E xs) (\<lambda>_. findModuleDefinitionsInFiles E ys)"
  by (induction xs) (simp_all add: bindIO_returnIO bindIO_assoc)

definition isConsoleLog :: "consoleLine \<Rightarrow> bool" where
  "isConsoleLog line =
     (case line of ConsoleLog _ \<Rightarrow> True | ConsoleError _ _ \<Rightarrow> False | ConsoleWarn _ \<Rightarrow> False)"

text \<open>
  C9. Let the structure command fail for a file that can be read. Then
  \<open>getStructureFromFile\<close> writes one error line and returns \<open>undefined\<close>; the loop
  body for that file writes this line and nothing else and does not throw; and a
  run over any list of files with this one in it ends as the run without it ends
  (normally, or with the same exception of another file) and prints the same module
  definitions. When the files before it pass without exception, the run is their
  lines, the error line, and then the whole run of the files after it.
\<close>

theorem C9_structure_failure_skips_file:
  assumes "structureTool E p = Inl failure" and "readFileSync E p = Inr text"
  shows "getStructureFromFile E \<lparr>path = p, content = text\<rparr>
           = ([ConsoleError ''An error occurred while executing the command:'' failure], None)
     \<and> processFile E p
           = ([ConsoleError ''An error occurred while executing the command:'' failure], Inr ())
     \<and> snd (findModuleDefinitionsInFiles E (before @ p # after))
           = snd (findModuleDefinitionsInFiles E (before @ after))
     \<and> filter isConsoleLog (fst (findModuleDefinitionsInFiles E (before @ p # after)))
           = filter isConsoleLog (fst (findModuleDefinitionsInFiles E (before @ after)))
     \<and> (snd (findModuleDefinitionsInFiles E before) = Inr ()
          \<longrightarrow> findModuleDefinitionsInFiles E (before @ p # after)
                = (fst (findModuleDefinitionsInFiles E before)
                     @ ConsoleError ''An error occurred while executing the command:'' failure
                     # fst (findModuleDefinitionsInFiles E after),
                   snd (findModuleDefinitionsInFiles E after)))"
proof -
  let ?err = "ConsoleError ''An error occurred while executing the command:'' failure"
  have tree: "getStructureFromFile E \<lparr>path = p, content = text\<rparr> = ([?err], None)"
    using assms(1) by (simp add: getStructureFromFile_def)
  have body: "processFile E p = ([?err], Inr ())"
    using assms(2) tree
    by (simp add: processFile_def bindIO_def pureIO_def returnIO_def)
  have step: "findModuleDefinitionsInFiles E (p # after)
                = (?err # fst (findModuleDefinitionsInFiles E after),
                   snd (findModuleDefinitionsInFiles E after))"
    by (simp add: body bindIO_def split: prod.splits)
  obtain l1 r1 where b: "findModuleDefinitionsInFiles E before = (l1, r1)"
    by (cases "findModuleDefinitionsInFiles E before")
  obtain l2 r2 where a: "findModuleDefinitionsInFiles E after = (l2, r2)"
    by (cases "findModuleDefinitionsInFiles E after")
  have with_p: "findModuleDefinitionsInFiles E (before @ p # after)
      = (case r1 of Inl e \<Rightarrow> (l1, Inl e) | Inr u \<Rightarrow> (l1 @ ?err # l2, r2))"
    by (simp add: findModuleDefinitionsInFiles_append [of E before "p # after"] step b a
          bindIO_def del: findModuleDefinitionsInFiles.simps split: sum.splits)
  have without_p: "findModuleDefinitionsInFiles E (before @ after)
      = (case r1 of Inl e \<Rightarrow> (l1, Inl e) | Inr u \<Rightarrow> (l1 @ l2, r2))"
    by (simp add: findModuleDefinitionsInFiles_append [of E before after] b a
          bindIO_def split: sum.splits)
  show ?thesis
    using tree body
    by (cases r1) (simp_all add: with_p without_p b a isConsoleLog_def)
qed

theorem C9_structure_failure_skips_file_witness:
  "findModuleDefinitionsInFiles demoEnv [''Broken.swift'', ''Demo.swift'']
     = ([ConsoleError ''An error occurred while executing the command:'' ExitNonZero,
         ConsoleLog demoModule], Inr ())
   \<and> findModuleDefinitionsInFiles demoEnv [''Demo.swift''] = ([ConsoleLog demoModule], Inr ())
   \<and> processFile demoEnv ''Broken.swift''
     = ([ConsoleError ''An error occurred while executing the command:'' ExitNonZero], Inr ())"
proof -
  have fails: "structureTool demoEnv ''Broken.swift'' = Inl ExitNonZero"
    and reads: "readFileSync demoEnv ''Broken.swift'' = Inr ''''"
    by (simp_all add: demoEnv_def)
  have demo: "findModuleDefinitionsInFiles demoEnv [''Demo.swift''] = ([ConsoleLog demoModule], Inr ())"
    by code_simp
  from C9_structure_failure_skips_file [OF fails reads, of "[]" "[''Demo.swift'']"] demo
  show ?thesis
    by (simp add: returnIO_def bindIO_def)
qed

text \<open>
  C10, at the module \<open>parseModuleDefinition\<close> builds for \<open>Demo.swift\<close>, which
  declares one event, and at a module with one function whose \<open>types\<close> is \<open>null\<close>.
  In both \<open>getTypesToMock\<close> reads \<open>types.parameters\<close> of a value that is
  \<open>undefined\<close> or \<open>null\<close> and throws; \<open>getMockForModule\<close> throws with it.
\<close>

theorem C10_getTypesToMock_throws:
  "parseModuleDefinition demoEnv demoChildren demoFile = ([], Inr demoModule)
   \<and> events demoModule = [\<lparr>e_name = ''onChange''\<rparr>]
   \<and> getTypesToMock demoModule = Inl TypeError
   \<and> getMockForModule demoModule = Inl TypeError
   \<and> getTypesToMock (ModuleDefinition (Some ''M'') [] [] [\<lparr>e_name = ''onChange''\<rparr>] [] [] [] None)
     = Inl TypeError
   \<and> getTypesToMock (ModuleDefinition (Some ''M'')
        [\<lparr>d_name = Some ''f'', d_types = None\<rparr>] [] [] [] [] [] None)
     = Inl TypeError"
proof -
  have "getTypesToMock demoModule = Inl TypeError"
    and "getMockForModule demoModule = Inl TypeError"
    and "getTypesToMock (ModuleDefinition (Some ''M'') [] [] [\<lparr>e_name = ''onChange''\<rparr>] [] [] [] None)
     = Inl TypeError"
    and "getTypesToMock (ModuleDefinition (Some ''M'')
        [\<lparr>d_name = Some ''f'', d_types = None\<rparr>] [] [] [] [] [] None)
     = Inl TypeError"
    by code_simp+
  then show ?thesis
    using demo_parse by (simp add: demoModule_def)
qed

end
